theory Spec2Isabelle
  imports Main "HOL-Library.Word"
begin

section \<open>Bytes, machine integers, errors\<close>

text \<open>
  A Go \<open>byte\<close> is an unsigned 8-bit word: \<open>b - '0'\<close> wraps around and \<open>b > 9\<close> compares
  unsigned, as \<open>-\<close> and \<open><\<close> on \<open>8 word\<close> do.  The bytes the code names are written by
  their codes: 36 is \<open>$\<close>, 42 is \<open>*\<close>, 45 is \<open>-\<close>, 48 is \<open>0\<close>, 57 is \<open>9\<close>, 58 is
  \<open>:\<close>, 90 is \<open>Z\<close>.

  A Go \<open>int\<close> is modelled as a HOL \<open>int\<close> kept in the 64-bit two's complement range
  (the width of \<open>int\<close> on a 64-bit platform).  In \<open>ParseInt\<close> and \<open>GetCommand\<close>, where a
  length taken from the input can make the arithmetic overflow, every addition and
  multiplication of the source is followed by \<open>int64\<close>, which wraps the exact result.
  The loop counters and byte counts of the copier move by one step between 0 and a
  value that is already in range, and are left as they are.
\<close>

type_synonym byte = "8 word"

definition int64 :: "int \<Rightarrow> int" where
  "int64 x = signed_take_bit 63 x"

definition bytes_of :: "string \<Rightarrow> byte list" where
  "bytes_of s = map of_char s"

definition CR :: byte where
  "CR = 13"

definition LF :: byte where
  "LF = 10"

text \<open>
  The error values of package \<open>protocol\<close>, the errors of \<open>io\<close> and \<open>bufio\<close> that can
  reach the code, the timeout of a connection, and the errors made with \<open>errors.New\<close>
  in package \<open>connection\<close>.
\<close>

datatype error =
    ERROR_INVALID_INT
  | ERROR_MULTIBULK_FORMAT_REQUIRED
  | ERROR_BAD_BULK_FORMAT
  | EOF
  | ErrBufferFull
  | ErrNegativeCount
  | ErrNoProgress
  | Timeout
  | errors_New string

text \<open>A run-time panic of Go: an index or a slice bound out of range, a nil dereference.\<close>

datatype runtime_panic = IndexOutOfRange | SliceBoundsOutOfRange | NilDereference

definition BUFFER_SIZE :: int where
  "BUFFER_SIZE = 4096"

definition OK_RESPONSE :: "byte list" where
  "OK_RESPONSE = bytes_of ''+OK''"

definition PONG_RESPONSE :: "byte list" where
  "PONG_RESPONSE = bytes_of ''+PONG''"

definition ERR_RESPONSE :: "byte list" where
  "ERR_RESPONSE = bytes_of ''$-1''"

definition REDIS_NEWLINE :: "byte list" where
  "REDIS_NEWLINE = [CR, LF]"

section \<open>ParseInt\<close>

text \<open>
  The loop of \<open>ParseInt\<close> over the bytes of \<open>response\<close>; \<open>len\<close> is the named result
  \<open>length\<close>, which the early return hands back as it stands.
\<close>

fun ParseInt_loop :: "int \<Rightarrow> byte list \<Rightarrow> int \<times> error option" where
  "ParseInt_loop len [] = (len, None)"
| "ParseInt_loop len (b # response) =
     (let b = b - 48 in
      if b > 9 then (len, Some ERROR_INVALID_INT)
      else ParseInt_loop (int64 (int64 (len * 10) + uint b)) response)"

definition ParseInt :: "byte list \<Rightarrow> int \<times> error option" where
  "ParseInt response = ParseInt_loop 0 response"

text \<open>
  The exact value of a digit string read in base ten: the first digit weighs ten to the
  number of digits after it.  This is the value the specification speaks of, not the
  one the code computes.
\<close>

fun decimal_value :: "byte list \<Rightarrow> int" where
  "decimal_value [] = 0"
| "decimal_value (d # ds) = uint (d - 48) * 10 ^ length ds + decimal_value ds"

definition is_digit :: "byte \<Rightarrow> bool" where
  "is_digit b \<longleftrightarrow> 48 \<le> b \<and> b \<le> 57"

section \<open>Slices\<close>

text \<open>\<open>bytes.IndexByte\<close>: the index of the first \<open>c\<close>, or \<open>-1\<close>.\<close>

fun IndexByte :: "byte list \<Rightarrow> byte \<Rightarrow> int" where
  "IndexByte [] c = - 1"
| "IndexByte (b # s) c =
     (if b = c then 0 else let i = IndexByte s c in if i = - 1 then - 1 else i + 1)"

text \<open>
  The slice expression \<open>s[lo:hi]\<close>.  Go panics unless \<open>0 \<le> lo \<le> hi \<le> cap(s)\<close>; the
  model checks \<open>hi\<close> against the length.  The two agree wherever \<open>GetCommand\<close> slices:
  an upper bound there is an index found in the slice, or its length, or a sum that
  passed the comparison of itself plus two with the length, and such a sum is at most
  the length unless the addition of two wrapped, when it is beyond any capacity.
\<close>

definition slice_of :: "byte list \<Rightarrow> int \<Rightarrow> int \<Rightarrow> runtime_panic + byte list" where
  "slice_of s lo hi =
     (if 0 \<le> lo \<and> lo \<le> hi \<and> hi \<le> int (length s)
      then Inr (take (nat (hi - lo)) (drop (nat lo) s))
      else Inl SliceBoundsOutOfRange)"

text \<open>A panic ends the function; a value goes on to the rest of it.\<close>

definition and_then ::
  "runtime_panic + 'a \<Rightarrow> ('a \<Rightarrow> runtime_panic + 'b) \<Rightarrow> runtime_panic + 'b" where
  "and_then m f = (case m of Inl p \<Rightarrow> Inl p | Inr x \<Rightarrow> f x)"

text \<open>Writing \<open>v\<close> through a slice that starts at index \<open>lo\<close> of \<open>s\<close>.\<close>

definition overwrite :: "byte list \<Rightarrow> int \<Rightarrow> byte list \<Rightarrow> byte list" where
  "overwrite s lo v = take (nat lo) s @ v @ drop (nat lo + length v) s"

section \<open>The buffered reader\<close>

text \<open>
  A \<open>bufio.Reader\<close> over a source that holds finitely many bytes: \<open>r_buf\<close> are the bytes
  resident in the buffer (\<open>b.buf[b.r:b.w]\<close>), \<open>r_rd\<close> the bytes the underlying reader has
  not handed over yet, \<open>r_end\<close> the error it reports once they are used up (\<open>io.EOF\<close>
  for a closed peer, a timeout for a silent one).  The underlying reader gives as many
  bytes as it is asked for and has.
\<close>

record reader =
  r_buf :: "byte list"
  r_rd :: "byte list"
  r_end :: error

definition defaultBufSize :: nat where
  "defaultBufSize = 4096"

definition Buffered :: "reader \<Rightarrow> int" where
  "Buffered b = int (length (r_buf b))"

text \<open>
  \<open>fill\<close> reads once from the underlying reader into the free part of the buffer.  The
  error Go stores in \<open>b.err\<close> is returned instead: every caller below picks it up at
  once.
\<close>

definition fill :: "reader \<Rightarrow> reader \<times> error option" where
  "fill b =
     (if r_rd b = [] then (b, Some (r_end b))
      else if defaultBufSize \<le> length (r_buf b) then (b, Some ErrNoProgress)
      else let n = defaultBufSize - length (r_buf b) in
        (b\<lparr>r_buf := r_buf b @ take n (r_rd b), r_rd := drop n (r_rd b)\<rparr>, None))"

function Peek_fill :: "reader \<Rightarrow> int \<Rightarrow> reader \<times> error option" where
  "Peek_fill b n =
     (if Buffered b < n \<and> length (r_buf b) < defaultBufSize
      then (if snd (fill b) \<noteq> None then fill b else Peek_fill (fst (fill b)) n)
      else (b, None))"
  by pat_completeness auto
termination
  by (relation "measure (\<lambda>(b, n). length (r_rd b))")
     (auto simp: fill_def Let_def neq_Nil_conv split: if_splits)

text \<open>\<open>Peek\<close> returns the next \<open>n\<close> bytes without advancing the reader.\<close>

definition Peek :: "reader \<Rightarrow> int \<Rightarrow> byte list \<times> error option \<times> reader" where
  "Peek b n =
     (if n < 0 then ([], Some ErrNegativeCount, b)
      else case Peek_fill b n of (b, e) \<Rightarrow>
        if n > int defaultBufSize then (r_buf b, Some ErrBufferFull, b)
        else if Buffered b < n
          then (r_buf b, Some (case e of Some e \<Rightarrow> e | None \<Rightarrow> ErrBufferFull), b)
        else (take (nat n) (r_buf b), None, b))"

section \<open>GetCommand\<close>

text \<open>The body of the loop that lowercases the command, for one byte.\<close>

definition lowercaseize :: "byte \<Rightarrow> byte" where
  "lowercaseize v = (if v \<le> 90 then v + 32 else v)"

text \<open>
  \<open>GetCommand\<close> returns \<open>(command, firstArgument, err)\<close>, a nil slice being \<open>None\<close>,
  and the reader, whose buffer the command is lowercased in: \<open>contents\<close> and \<open>command\<close>
  are slices of that buffer.
\<close>

definition GetCommand ::
  "reader \<Rightarrow> runtime_panic + ((byte list option \<times> byte list option \<times> error option) \<times> reader)" where
  "GetCommand source =
     (case Peek source (Buffered source) of (contents, err, source) \<Rightarrow>
      if err \<noteq> None then Inr ((None, None, err), source) else
      let nextLine = IndexByte contents CR in
      if nextLine = - 1
      then Inr ((None, None, Some ERROR_MULTIBULK_FORMAT_REQUIRED), source) else
      and_then (slice_of contents 1 nextLine) (\<lambda>header.
      case ParseInt header of (messageLength, err) \<Rightarrow>
      if err \<noteq> None then Inr ((None, None, err), source) else
      let nextLine = int64 (nextLine + 2) in
      if int64 (int64 (nextLine + messageLength) + 2) > int (length contents)
      then Inr ((None, None, Some ERROR_MULTIBULK_FORMAT_REQUIRED), source) else
      and_then (slice_of contents nextLine (int64 (nextLine + messageLength))) (\<lambda>command.
      let command = map lowercaseize command;
          contents = overwrite contents nextLine command;
          source = source\<lparr>r_buf := overwrite (r_buf source) nextLine command\<rparr> in
      if int64 (int64 (nextLine + messageLength) + 2) = int (length contents)
      then Inr ((Some command, None, None), source) else
      let messageLength = int64 (int64 (nextLine + messageLength) + 2) in
      and_then (slice_of contents messageLength (int (length contents))) (\<lambda>rest.
      let nextLine = IndexByte rest CR in
      if nextLine = - 1
      then Inr ((Some command, None, Some ERROR_MULTIBULK_FORMAT_REQUIRED), source) else
      let nextLine = int64 (nextLine + messageLength) in
      and_then (slice_of contents (int64 (messageLength + 1)) nextLine) (\<lambda>header.
      case ParseInt header of (messageLength, err) \<Rightarrow>
      if err \<noteq> None then Inr ((Some command, None, err), source) else
      let nextLine = int64 (nextLine + 2) in
      if int64 (int64 (nextLine + messageLength) + 2) > int (length contents)
      then Inr ((Some command, None, Some ERROR_MULTIBULK_FORMAT_REQUIRED), source) else
      and_then (slice_of contents nextLine (int64 (nextLine + messageLength))) (\<lambda>firstArgument.
      Inr ((Some command, Some firstArgument, None), source)))))))"

section \<open>Reading lines and bytes\<close>

text \<open>
  \<open>ReadSlice\<close> reads up to and including the first \<open>delim\<close>; at the end of the source
  it returns what is buffered with the error, and a buffer that is full without a
  \<open>delim\<close> is returned whole with \<open>ErrBufferFull\<close>.
\<close>

function ReadSlice :: "reader \<Rightarrow> byte \<Rightarrow> byte list \<times> error option \<times> reader" where
  "ReadSlice b delim =
     (if 0 \<le> IndexByte (r_buf b) delim
      then (take (nat (IndexByte (r_buf b) delim) + 1) (r_buf b), None,
            b\<lparr>r_buf := drop (nat (IndexByte (r_buf b) delim) + 1) (r_buf b)\<rparr>)
      else if int defaultBufSize \<le> Buffered b
      then (r_buf b, Some ErrBufferFull, b\<lparr>r_buf := []\<rparr>)
      else if snd (fill b) \<noteq> None
      then (r_buf (fst (fill b)), snd (fill b), (fst (fill b))\<lparr>r_buf := []\<rparr>)
      else ReadSlice (fst (fill b)) delim)"
  by pat_completeness auto
termination
  by (relation "measure (\<lambda>(b, delim). length (r_rd b))")
     (auto simp: fill_def Let_def Buffered_def neq_Nil_conv split: if_splits)

text \<open>
  \<open>ReadLine\<close> returns \<open>(line, isPrefix, err)\<close>: the line without its end-of-line
  bytes, or the first part of a line too long for the buffer with \<open>isPrefix\<close> set.
\<close>

definition ReadLine :: "reader \<Rightarrow> byte list \<times> bool \<times> error option \<times> reader" where
  "ReadLine b =
     (case ReadSlice b LF of (line, err, b) \<Rightarrow>
      if err = Some ErrBufferFull then
        (if line \<noteq> [] \<and> last line = CR
         then (butlast line, True, None, b\<lparr>r_buf := CR # r_buf b\<rparr>)
         else (line, True, None, b))
      else if line = [] then ([], False, err, b)
      else if last line = LF then
        (let dropped = (if length line > 1 \<and> line ! (length line - 2) = CR then 2 else 1)
         in (take (length line - dropped) line, False, None, b))
      else (line, False, None, b))"

definition ReadByte :: "reader \<Rightarrow> byte \<times> error option \<times> reader" where
  "ReadByte b =
     (case r_buf b of
        c # cs \<Rightarrow> (c, None, b\<lparr>r_buf := cs\<rparr>)
      | [] \<Rightarrow>
          (case fill b of
             (b', Some e) \<Rightarrow> (0, Some e, b')
           | (b', None) \<Rightarrow>
               (case r_buf b' of
                  c # cs \<Rightarrow> (c, None, b'\<lparr>r_buf := cs\<rparr>)
                | [] \<Rightarrow> (0, Some ErrNoProgress, b'))))"

text \<open>
  \<open>Read\<close> into a slice of length \<open>n\<close> returns the bytes read: from the buffer when it
  holds any, else by one read of the underlying reader (straight into the slice when
  the slice is at least as large as the buffer).
\<close>

definition Read :: "reader \<Rightarrow> nat \<Rightarrow> byte list \<times> error option \<times> reader" where
  "Read b n =
     (if n = 0 then ([], None, b)
      else if r_buf b = [] then
        (if defaultBufSize \<le> n then
           (if r_rd b = [] then ([], Some (r_end b), b)
            else (take n (r_rd b), None, b\<lparr>r_rd := drop n (r_rd b)\<rparr>))
         else (case fill b of
                 (b', Some e) \<Rightarrow> ([], Some e, b')
               | (b', None) \<Rightarrow> (take n (r_buf b'), None, b'\<lparr>r_buf := drop n (r_buf b')\<rparr>)))
      else (take n (r_buf b), None, b\<lparr>r_buf := drop n (r_buf b)\<rparr>))"

section \<open>The buffered writer\<close>

text \<open>
  A \<open>bufio.Writer\<close>: \<open>w_buf\<close> are the bytes buffered, \<open>w_wr\<close> the bytes the underlying
  writer has taken, \<open>w_err\<close> the error the writer keeps once a write has failed
  (\<open>b.err\<close>), \<open>w_fail\<close> the answer of the underlying writer: \<open>None\<close> when it takes every
  write whole, an error when it takes nothing.
\<close>

record writer =
  w_buf :: "byte list"
  w_wr :: "byte list"
  w_err :: "error option"
  w_fail :: "error option"

definition Available :: "writer \<Rightarrow> nat" where
  "Available b = defaultBufSize - length (w_buf b)"

definition Flush :: "writer \<Rightarrow> error option \<times> writer" where
  "Flush b =
     (if w_err b \<noteq> None then (w_err b, b)
      else if w_buf b = [] then (None, b)
      else (case w_fail b of
              Some e \<Rightarrow> (Some e, b\<lparr>w_err := Some e\<rparr>)
            | None \<Rightarrow> (None, b\<lparr>w_wr := w_wr b @ w_buf b, w_buf := []\<rparr>)))"

function Write :: "writer \<Rightarrow> byte list \<Rightarrow> error option \<times> writer" where
  "Write b p =
     (if length p > Available b \<and> w_err b = None then
        (if w_buf b = [] then
           (case w_fail b of
              Some e \<Rightarrow> Write (b\<lparr>w_err := Some e\<rparr>) p
            | None \<Rightarrow> Write (b\<lparr>w_wr := w_wr b @ p\<rparr>) [])
         else Write (snd (Flush (b\<lparr>w_buf := w_buf b @ take (Available b) p\<rparr>)))
                (drop (Available b) p))
      else if w_err b \<noteq> None then (w_err b, b)
      else (None, b\<lparr>w_buf := w_buf b @ p\<rparr>))"
  by pat_completeness auto
termination
  by (relation "measure (\<lambda>(b, p).
        if w_err b \<noteq> None \<or> p = [] then 0 else if w_buf b = [] then 1 else 2)")
     (auto simp: Flush_def split: option.splits)

text \<open>
  \<open>io.CopyN\<close> by its contract: it copies \<open>n\<close> bytes from \<open>src\<close> to \<open>dst\<close> or stops at
  the first error, and returns the number of bytes copied with no error exactly when
  that number is \<open>n\<close>.  The bytes come out of the buffer first, then out of the
  underlying reader.  A negative \<open>n\<close> copies nothing and gives no error.
\<close>

definition CopyN :: "writer \<Rightarrow> reader \<Rightarrow> int \<Rightarrow> int \<times> error option \<times> writer \<times> reader" where
  "CopyN dst src n =
     (if n \<le> 0 then (0, None, dst, src)
      else
        let data = take (nat n) (r_buf src @ r_rd src);
            src' = src\<lparr>r_buf := drop (nat n) (r_buf src),
                       r_rd := drop (nat n - length (r_buf src)) (r_rd src)\<rparr>
        in case Write dst data of (werr, dst') \<Rightarrow>
          if werr \<noteq> None then (0, werr, dst', src')
          else if int (length data) = n then (n, None, dst', src')
          else (int (length data), Some (r_end src), dst', src'))"

section \<open>Copying and ignoring messages\<close>

definition writeLine :: "byte list \<Rightarrow> writer \<Rightarrow> error option \<times> writer" where
  "writeLine line destination =
     (case Write destination line of (err, destination) \<Rightarrow>
      if err \<noteq> None then (err, destination)
      else Write destination REDIS_NEWLINE)"

text \<open>
  The loop of \<open>ignoreBulkMessage\<close> that reads \<open>n\<close> bytes into the refuse heap, whose
  contents nothing reads: \<open>Inl\<close> is the return from inside the loop, \<open>Inr\<close> the reader
  when the loop ends.
\<close>

function ignoreBulkMessage_loop :: "int \<Rightarrow> reader \<Rightarrow> (error option \<times> reader) + reader" where
  "ignoreBulkMessage_loop n source =
     (if n > 0 then
        (case (if n > BUFFER_SIZE then Read source (nat BUFFER_SIZE)
               else Read source (nat n)) of
           (refuse, err, source') \<Rightarrow>
             if err \<noteq> None then Inl (err, source')
             else if length refuse = 0 then Inl (err, source')
             else ignoreBulkMessage_loop (n - int (length refuse)) source')
      else Inr source)"
  by pat_completeness auto
termination
  by (relation "measure (\<lambda>(n, source). nat n)") auto

definition ignoreBulkMessage :: "byte list \<Rightarrow> reader \<Rightarrow> error option \<times> reader" where
  "ignoreBulkMessage firstLine source =
     (if length firstLine < 2 \<or> firstLine ! 0 \<noteq> 36
      then (Some ERROR_BAD_BULK_FORMAT, source)
      else if firstLine = ERR_RESPONSE then (None, source)
      else case ParseInt (drop 1 firstLine) of (n, err) \<Rightarrow>
        if err \<noteq> None then (err, source) else
        (case ignoreBulkMessage_loop n source of
           Inl returned \<Rightarrow> returned
         | Inr source \<Rightarrow>
             (case ReadByte source of (char, err, source) \<Rightarrow>
              if err \<noteq> None then (err, source)
              else if char \<noteq> CR then (Some ERROR_BAD_BULK_FORMAT, source)
              else case ReadByte source of (char, err, source) \<Rightarrow>
                if err \<noteq> None then (err, source)
                else if char \<noteq> LF then (Some ERROR_BAD_BULK_FORMAT, source)
                else (err, source))))"

text \<open>
  The loop of \<open>IgnoreMultiBulkMessage\<close>.  \<open>firstLine[0]\<close> is read with no check of the
  length of the line: on an empty line it panics.
\<close>

function IgnoreMultiBulkMessage_loop ::
  "int \<Rightarrow> int \<Rightarrow> reader \<Rightarrow> runtime_panic + (error option \<times> reader)" where
  "IgnoreMultiBulkMessage_loop i n source =
     (if i < n then
        (case ReadLine source of (firstLine, isPrefix, err, source') \<Rightarrow>
           if err \<noteq> None then Inr (err, source')
           else (case firstLine of
                   [] \<Rightarrow> Inl IndexOutOfRange
                 | c # rest \<Rightarrow>
                     if c = 58 then IgnoreMultiBulkMessage_loop (i + 1) n source'
                     else (case ignoreBulkMessage firstLine source' of (err, source'') \<Rightarrow>
                             if err \<noteq> None then Inr (err, source'')
                             else IgnoreMultiBulkMessage_loop (i + 1) n source'')))
      else Inr (None, source))"
  by pat_completeness auto
termination
  by (relation "measure (\<lambda>(i, n, source). nat (n - i))") auto

definition IgnoreMultiBulkMessage ::
  "byte list \<Rightarrow> reader \<Rightarrow> runtime_panic + (error option \<times> reader)" where
  "IgnoreMultiBulkMessage firstLine source =
     (if length firstLine < 2 \<or> firstLine ! 0 \<noteq> 42
      then Inr (Some ERROR_BAD_BULK_FORMAT, source)
      else case ParseInt (drop 1 firstLine) of (n, err) \<Rightarrow>
        if err \<noteq> None then Inr (err, source)
        else IgnoreMultiBulkMessage_loop 0 n source)"

definition copyBulkMessage ::
  "byte list \<Rightarrow> writer \<Rightarrow> reader \<Rightarrow> error option \<times> writer \<times> reader" where
  "copyBulkMessage firstLine destination source =
     (if length firstLine < 2 \<or> firstLine ! 0 \<noteq> 36
      then (Some ERROR_BAD_BULK_FORMAT, destination, source)
      else if firstLine = ERR_RESPONSE
      then (case writeLine ERR_RESPONSE destination of
              (err, destination) \<Rightarrow> (err, destination, source))
      else case ParseInt (drop 1 firstLine) of (n, err) \<Rightarrow>
        if err \<noteq> None then (err, destination, source) else
        case writeLine firstLine destination of (err, destination) \<Rightarrow>
        if err \<noteq> None then (err, destination, source) else
        case CopyN destination source n of (written, err, destination, source) \<Rightarrow>
        if err \<noteq> None then (err, destination, source) else
        if written \<noteq> n then (err, destination, source) else
        case ReadByte source of (char, err, source) \<Rightarrow>
        if err \<noteq> None then (err, destination, source) else
        if char \<noteq> CR then (Some ERROR_BAD_BULK_FORMAT, destination, source) else
        case ReadByte source of (char, err, source) \<Rightarrow>
        if err \<noteq> None then (err, destination, source) else
        if char \<noteq> LF then (Some ERROR_BAD_BULK_FORMAT, destination, source) else
        case Write destination REDIS_NEWLINE of (err, destination) \<Rightarrow>
        (err, destination, source))"

text \<open>
  The loop of \<open>CopyMultiBulkMessage\<close>: every line read goes to \<open>copyBulkMessage\<close>;
  there is no branch for a line that starts with \<open>:\<close>.
\<close>

function CopyMultiBulkMessage_loop ::
  "int \<Rightarrow> int \<Rightarrow> writer \<Rightarrow> reader \<Rightarrow> error option \<times> writer \<times> reader" where
  "CopyMultiBulkMessage_loop i n destination source =
     (if i < n then
        (case ReadLine source of (firstLine, isPrefix, err, source') \<Rightarrow>
           if err \<noteq> None then (err, destination, source')
           else (case copyBulkMessage firstLine destination source' of
                   (err, destination', source'') \<Rightarrow>
                     if err \<noteq> None then (err, destination', source'')
                     else CopyMultiBulkMessage_loop (i + 1) n destination' source''))
      else (None, destination, source))"
  by pat_completeness auto
termination
  by (relation "measure (\<lambda>(i, n, destination, source). nat (n - i))") auto

definition CopyMultiBulkMessage ::
  "byte list \<Rightarrow> writer \<Rightarrow> reader \<Rightarrow> error option \<times> writer \<times> reader" where
  "CopyMultiBulkMessage firstLine destination source =
     (if length firstLine < 2 \<or> firstLine ! 0 \<noteq> 42
      then (Some ERROR_BAD_BULK_FORMAT, destination, source)
      else case ParseInt (drop 1 firstLine) of (n, err) \<Rightarrow>
        if err \<noteq> None then (err, destination, source) else
        case writeLine firstLine destination of (err, destination) \<Rightarrow>
        if err \<noteq> None then (err, destination, source) else
        case CopyMultiBulkMessage_loop 0 n destination source of
          (err, destination, source) \<Rightarrow>
        if err \<noteq> None then (err, destination, source) else
        case Flush destination of (err, destination) \<Rightarrow>
        (err, destination, source))"

definition CopyServerResponse ::
  "reader \<Rightarrow> writer \<Rightarrow> error option \<times> writer \<times> reader" where
  "CopyServerResponse remoteBuffer localBuffer =
     (case ReadLine remoteBuffer of (firstLine, isPrefix, err, remoteBuffer) \<Rightarrow>
      if err \<noteq> None then (err, localBuffer, remoteBuffer) else
      if length firstLine < 2
      then (Some ERROR_BAD_BULK_FORMAT, localBuffer, remoteBuffer) else
      case (if firstLine ! 0 = 36
            then copyBulkMessage firstLine localBuffer remoteBuffer
            else if firstLine ! 0 = 42 \<and> firstLine ! 1 \<noteq> 45
            then CopyMultiBulkMessage firstLine localBuffer remoteBuffer
            else (case writeLine firstLine localBuffer of
                    (err, localBuffer) \<Rightarrow> (err, localBuffer, remoteBuffer))) of
        (err, localBuffer, remoteBuffer) \<Rightarrow>
      if err \<noteq> None then (err, localBuffer, remoteBuffer)
      else (err, snd (Flush localBuffer), remoteBuffer))"

section \<open>The connection\<close>

text \<open>
  The socket is an identifier; what \<open>Disconnect\<close> and \<open>SelectDatabase\<close> do to the
  world outside the connection (closing the socket, the log, the graphite counter) is
  a list of events, the latest last.  \<open>Writer\<close> is a \<open>writer.FlexibleWriter\<close>, whose
  package is not part of the sources: its type is the parameter \<open>'w\<close>.
\<close>

type_synonym conn = nat

datatype event =
    Close conn
  | log_Info string
  | log_Error string
  | graphite_Increment string

record 'w Connection =
  connection :: "conn option"
  DatabaseId :: int
  Reader :: "reader option"
  Writer :: "'w option"
  protocol :: string
  endpoint :: string
  authUser :: string
  authPassword :: string
  connectTimeout :: int
  readTimeout :: int
  writeTimeout :: int

definition Disconnect :: "'w Connection \<Rightarrow> event list \<Rightarrow> 'w Connection \<times> event list" where
  "Disconnect c world =
     (let world =
        (case connection c of
           Some socket \<Rightarrow>
             world @ [Close socket, log_Info ''Disconnected a connection'',
                      graphite_Increment ''disconnect'']
         | None \<Rightarrow> world)
      in (c\<lparr>connection := None, DatabaseId := 0, Reader := None, Writer := None\<rparr>, world))"

text \<open>\<open>fmt.Sprintf("%d", i)\<close>: the decimal digits of \<open>i\<close>, after a minus sign if negative.\<close>

fun digits :: "nat \<Rightarrow> byte list" where
  "digits n = (if n < 10 then [48 + of_nat n] else digits (n div 10) @ [48 + of_nat (n mod 10)])"

definition Sprintf_d :: "int \<Rightarrow> byte list" where
  "Sprintf_d i = (if i < 0 then 45 # digits (nat (- i)) else digits (nat i))"

text \<open>
  \<open>SelectDatabase\<close>.  \<open>protocol.WriteLine\<close> for a flexible writer is not part of the
  sources either: it is the parameter \<open>WriteLine\<close>, which gets the line, the writer and
  the flush flag and answers with an error or none.  \<open>requested\<close> is the argument
  \<open>DatabaseId\<close>.  Calling \<open>ReadLine\<close> on a nil reader panics.
\<close>

definition SelectDatabase ::
  "(byte list \<Rightarrow> 'w option \<Rightarrow> bool \<Rightarrow> error option \<times> 'w option) \<Rightarrow>
   'w Connection \<Rightarrow> int \<Rightarrow> event list \<Rightarrow>
   runtime_panic + (error option \<times> 'w Connection \<times> event list)" where
  "SelectDatabase WriteLine this requested world =
     (if connection this = None
      then Inr (Some (errors_New ''Selecting database on an invalid connection''), this,
                world @ [log_Error ''SelectDatabase: Selecting on invalid connection''])
      else
        case WriteLine (bytes_of ''select '' @ Sprintf_d requested) (Writer this) True of
          (err, w) \<Rightarrow>
        let this = this\<lparr>Writer := w\<rparr> in
        if err \<noteq> None
        then Inr (err, this,
                  world @ [log_Error ''SelectDatabase: Error received from protocol.FlushLine: %s''])
        else
          (case Reader this of
             None \<Rightarrow> Inl NilDereference
           | Some reader \<Rightarrow>
               (case ReadLine reader of (line, isPrefix, err, reader) \<Rightarrow>
                let this = this\<lparr>Reader := Some reader\<rparr> in
                if err \<noteq> None \<or> isPrefix \<or> line \<noteq> OK_RESPONSE
                then
                  (case Disconnect this
                      (world @ [log_Error ''SelectDatabase: Error while attempting to select database. Err:%q Response:%q isPrefix:%t'']) of
                     (this, world) \<Rightarrow>
                       Inr (Some (errors_New ''Invalid select response''), this, world))
                else Inr (None, this\<lparr>DatabaseId := requested\<rparr>, world))))"

section \<open>Readers, writers and connections at the start\<close>

text \<open>
  \<open>bufio.NewReader\<close> over a source that holds \<open>rd\<close> and is closed after it, and
  \<open>bufio.NewWriter\<close> over a writer that takes everything.
\<close>

definition NewReader :: "byte list \<Rightarrow> reader" where
  "NewReader rd = \<lparr>r_buf = [], r_rd = rd, r_end = EOF\<rparr>"

definition NewWriter :: writer where
  "NewWriter = \<lparr>w_buf = [], w_wr = [], w_err = None, w_fail = None\<rparr>"

text \<open>A line on the wire: the text and the newline of the protocol.\<close>

definition line_of :: "string \<Rightarrow> byte list" where
  "line_of s = bytes_of s @ REDIS_NEWLINE"

text \<open>
  Modelled from the spec: \<open>protocol.WriteLine\<close> on a \<open>writer.FlexibleWriter\<close>, neither of
  which is in the sources.  The specification has the line written with the fixed
  newline sequence after it and flushed; the writer is modelled as the bytes it has
  sent, and the write does not fail.  Only the examples use it: the theorem about
  \<open>SelectDatabase\<close> holds for every \<open>WriteLine\<close>.
\<close>

definition WriteLine_ok ::
  "byte list \<Rightarrow> byte list option \<Rightarrow> bool \<Rightarrow> error option \<times> byte list option" where
  "WriteLine_ok l w flush = (None, map_option (\<lambda>sent. sent @ l @ REDIS_NEWLINE) w)"

text \<open>
  A connection in use: socket 7 is open, database \<open>d\<close> is selected, nothing has been
  sent yet, and the server will answer \<open>reply\<close> and close.
\<close>

definition connected :: "int \<Rightarrow> byte list \<Rightarrow> byte list Connection" where
  "connected d reply =
     \<lparr>connection = Some 7, DatabaseId = d, Reader = Some (NewReader reply), Writer = Some [],
      protocol = ''tcp'', endpoint = ''localhost:6379'', authUser = [], authPassword = [],
      connectTimeout = 50, readTimeout = 50, writeTimeout = 50\<rparr>"

section \<open>Properties of ParseInt\<close>

lemma sub48_low:
  assumes "0 \<le> (x::int)" "x < 48"
  shows "(x - 48) mod 256 = x + 208"
proof -
  have "(x - 48) mod 256 = (x - 48 + 256) mod 256"
    by (simp only: mod_add_self2)
  also have "\<dots> = x + 208"
    using assms by simp
  finally show ?thesis .
qed

text \<open>The single unsigned test of the loop is the test for a digit.\<close>

lemma digit_offset: "(b - 48 > (9::byte)) \<longleftrightarrow> \<not> is_digit b"
proof -
  have bnd: "0 \<le> uint b" "uint b < 256"
    using uint_bounded [of b] by simp_all
  have sub: "uint (b - 48) = (uint b - 48) mod 256"
    by (simp add: uint_word_ariths)
  show ?thesis
  proof (cases "48 \<le> uint b")
    case True
    with bnd sub have "uint (b - 48) = uint b - 48"
      by simp
    with True show ?thesis
      unfolding is_digit_def word_less_alt word_le_def by auto
  next
    case False
    with bnd sub have "uint (b - 48) = uint b + 208"
      by (simp add: sub48_low)
    with bnd have "9 < uint (b - 48)"
      by linarith
    with False show ?thesis
      unfolding is_digit_def word_less_alt word_le_def by simp
  qed
qed

lemma uint_digit: "is_digit b \<Longrightarrow> uint (b - 48) = uint b - 48"
  unfolding is_digit_def word_le_def
  by (simp add: uint_sub_if')

lemma uint_digit_range: "is_digit b \<Longrightarrow> 0 \<le> uint (b - 48) \<and> uint (b - 48) \<le> 9"
  using uint_digit [of b] unfolding is_digit_def word_le_def by simp

lemma int64_idem: "int64 (int64 x) = int64 x"
  by (simp add: int64_def)

lemma int64_range: "int64 x = x \<longleftrightarrow> - (2 ^ 63) \<le> x \<and> x < 2 ^ 63"
  unfolding int64_def by (rule signed_take_bit_int_eq_self_iff)

lemma int64_cong: "int64 a = int64 b \<longleftrightarrow> a mod 2 ^ 64 = b mod 2 ^ 64"
  by (simp add: int64_def signed_take_bit_eq_iff_take_bit_eq take_bit_eq_mod)

lemma int64_mod: "int64 x mod 2 ^ 64 = x mod 2 ^ 64"
  using int64_idem [of x] by (simp only: int64_cong)

lemma int64_mult_add: "int64 (int64 a * p + v) = int64 (a * p + v)"
proof -
  have "(int64 a * p) mod 2 ^ 64 = (a * p) mod 2 ^ 64"
    by (rule mod_mult_cong [OF int64_mod refl])
  then have "(int64 a * p + v) mod 2 ^ 64 = (a * p + v) mod 2 ^ 64"
    by (rule mod_add_cong) (rule refl)
  then show ?thesis
    by (simp only: int64_cong)
qed

text \<open>
  On digits the loop never leaves early, and what it has accumulated is the exact value
  wrapped to 64 bits: the wrap after each step is absorbed by the wrap at the end.
\<close>

lemma ParseInt_loop_digits:
  "\<forall>b\<in>set ds. is_digit b \<Longrightarrow> int64 len = len \<Longrightarrow>
   ParseInt_loop len ds = (int64 (len * 10 ^ length ds + decimal_value ds), None)"
proof (induction ds arbitrary: len)
  case Nil
  then show ?case by simp
next
  case (Cons d ds)
  let ?next = "int64 (len * 10 + uint (d - 48))"
  from Cons.prems have d: "is_digit d" and ds: "\<forall>b\<in>set ds. is_digit b"
    by simp_all
  have "int64 (int64 (len * 10) + uint (d - 48)) = ?next"
    using int64_mult_add [of "len * 10" 1 "uint (d - 48)"] by simp
  with d have "ParseInt_loop len (d # ds) = ParseInt_loop ?next ds"
    by (simp add: digit_offset)
  also have "\<dots> = (int64 (?next * 10 ^ length ds + decimal_value ds), None)"
    by (rule Cons.IH [OF ds]) (rule int64_idem)
  also have "int64 (?next * 10 ^ length ds + decimal_value ds)
    = int64 ((len * 10 + uint (d - 48)) * 10 ^ length ds + decimal_value ds)"
    by (rule int64_mult_add)
  finally show ?case
    by (simp add: algebra_simps)
qed

lemma decimal_value_nonneg: "\<forall>b\<in>set ds. is_digit b \<Longrightarrow> 0 \<le> decimal_value ds"
  by (induction ds) (auto simp: uint_digit_range)

lemma ParseInt_digits:
  assumes "\<forall>b\<in>set ds. is_digit b"
  shows "ParseInt ds = (int64 (decimal_value ds), None)"
  using ParseInt_loop_digits [OF assms, of 0] by (simp add: ParseInt_def int64_def)

lemma ParseInt_loop_nondigit:
  "\<exists>b\<in>set bs. \<not> is_digit b \<Longrightarrow> snd (ParseInt_loop len bs) = Some ERROR_INVALID_INT"
  by (induction bs arbitrary: len) (auto simp: digit_offset Let_def)

text \<open>
  Claim C7.  \<open>ParseInt\<close> accepts unsigned decimal digit strings only: \<open>"0"\<close> gives 0 and
  \<open>"123"\<close> gives 123 with no error, \<open>"12a"\<close> gives the invalid-integer error, the empty
  input gives 0 with no error, and for every input the error is the invalid-integer
  error exactly when some byte lies outside \<open>'0'..'9'\<close> (so for the signs \<open>+\<close> and
  \<open>-\<close> too), and absent otherwise.
\<close>

theorem ParseInt_unsigned_decimal:
  "ParseInt (bytes_of ''0'') = (0, None) \<and>
   ParseInt (bytes_of ''123'') = (123, None) \<and>
   snd (ParseInt (bytes_of ''12a'')) = Some ERROR_INVALID_INT \<and>
   ParseInt [] = (0, None) \<and>
   snd (ParseInt response) =
     (if \<forall>b\<in>set response. is_digit b then None else Some ERROR_INVALID_INT)"
proof -
  have "snd (ParseInt response) = None" if "\<forall>b\<in>set response. is_digit b"
    using ParseInt_digits [OF that] by simp
  moreover have "snd (ParseInt response) = Some ERROR_INVALID_INT"
    if "\<not> (\<forall>b\<in>set response. is_digit b)"
    using that ParseInt_loop_nondigit [of response 0] by (simp add: ParseInt_def)
  moreover have "ParseInt (bytes_of ''0'') = (0, None)"
    "ParseInt (bytes_of ''123'') = (123, None)"
    "snd (ParseInt (bytes_of ''12a'')) = Some ERROR_INVALID_INT"
    "ParseInt [] = (0, None)"
    by (simp_all add: ParseInt_def bytes_of_def int64_def)
  ultimately show ?thesis
    by simp
qed

theorem ParseInt_unsigned_decimal_witness:
  "\<not> list_all is_digit (bytes_of ''-5'') \<and>
   snd (ParseInt (bytes_of ''-5'')) = Some ERROR_INVALID_INT \<and>
   \<not> list_all is_digit (bytes_of ''+5'') \<and>
   snd (ParseInt (bytes_of ''+5'')) = Some ERROR_INVALID_INT \<and>
   list_all is_digit (bytes_of ''42'') \<and>
   snd (ParseInt (bytes_of ''42'')) = None"
  using ParseInt_unsigned_decimal [of "bytes_of ''-5''"]
    ParseInt_unsigned_decimal [of "bytes_of ''+5''"]
    ParseInt_unsigned_decimal [of "bytes_of ''42''"]
  by (simp add: bytes_of_def is_digit_def)

text \<open>
  Claim C10.  On an input of ASCII digits only, \<open>ParseInt\<close> returns no error and the
  exact decimal value wrapped to a signed 64-bit integer, which is the exact value
  only when that value is below \<open>2 ^ 63\<close>; a longer digit string therefore gives a
  wrong length with no error, and \<open>9223372036854775808\<close> gives a negative one.
\<close>

theorem ParseInt_wraps:
  "((\<forall>b\<in>set ds. is_digit b) \<longrightarrow>
      ParseInt ds = (int64 (decimal_value ds), None) \<and>
      (fst (ParseInt ds) = decimal_value ds \<longleftrightarrow> decimal_value ds < 2 ^ 63)) \<and>
   ParseInt (bytes_of ''9223372036854775808'') = (- 9223372036854775808, None)"
proof (intro conjI impI)
  assume digits: "\<forall>b\<in>set ds. is_digit b"
  show "ParseInt ds = (int64 (decimal_value ds), None)"
    by (rule ParseInt_digits [OF digits])
  show "fst (ParseInt ds) = decimal_value ds \<longleftrightarrow> decimal_value ds < 2 ^ 63"
    using ParseInt_digits [OF digits] decimal_value_nonneg [OF digits]
    by (simp add: int64_range)
next
  show "ParseInt (bytes_of ''9223372036854775808'') = (- 9223372036854775808, None)"
    by (simp add: ParseInt_def bytes_of_def int64_def)
qed

theorem ParseInt_wraps_witness:
  "list_all is_digit (bytes_of ''18446744073709551617'') \<and>
   decimal_value (bytes_of ''18446744073709551617'') = 18446744073709551617 \<and>
   ParseInt (bytes_of ''18446744073709551617'') = (1, None)"
  using ParseInt_wraps [of "bytes_of ''18446744073709551617''"]
  by (simp add: bytes_of_def is_digit_def int64_def)

section \<open>Properties of the connection\<close>

text \<open>
  Claim C9.  \<open>Disconnect\<close> is idempotent: it returns no error and cannot panic, a
  second call right after the first changes neither the connection nor the world (so
  it closes no socket), and after either call the socket is absent, the reader and the
  writer are cleared and the database index is 0.
\<close>

theorem Disconnect_idempotent:
  "Disconnect (fst (Disconnect c world)) (snd (Disconnect c world)) = Disconnect c world \<and>
   connection (fst (Disconnect c world)) = None \<and>
   Reader (fst (Disconnect c world)) = None \<and>
   Writer (fst (Disconnect c world)) = None \<and>
   DatabaseId (fst (Disconnect c world)) = 0"
  by (simp add: Disconnect_def Let_def)

text \<open>
  Claim C2, as the code has it.  On a connection whose socket is open and whose
  \<open>select\<close> line was written, a reply that is exactly \<open>+OK\<close> sets \<open>DatabaseId\<close> to the
  requested index and gives no error; every other outcome of reading the reply (a
  read error, a prefix, another line) gives the selection error and disconnects, which
  closes the socket, clears reader and writer and resets \<open>DatabaseId\<close> to 0, whatever
  it was before.
\<close>

theorem SelectDatabase_reply:
  assumes "connection this = Some socket"
    and "Reader this = Some reader"
    and "WriteLine (bytes_of ''select '' @ Sprintf_d requested) (Writer this) True = (None, w)"
    and "ReadLine reader = (reply, isPrefix, err, reader')"
  shows "SelectDatabase WriteLine this requested world =
     (if err = None \<and> \<not> isPrefix \<and> reply = OK_RESPONSE
      then Inr (None, this\<lparr>Writer := w, Reader := Some reader', DatabaseId := requested\<rparr>, world)
      else Inr (Some (errors_New ''Invalid select response''),
                this\<lparr>connection := None, DatabaseId := 0, Reader := None, Writer := None\<rparr>,
                world @ [log_Error ''SelectDatabase: Error while attempting to select database. Err:%q Response:%q isPrefix:%t'',
                         Close socket, log_Info ''Disconnected a connection'',
                         graphite_Increment ''disconnect'']))"
  using assms by (simp add: SelectDatabase_def Disconnect_def Let_def)

theorem SelectDatabase_reply_witness:
  "SelectDatabase WriteLine_ok (connected 3 (line_of ''+OK'')) 5 [] =
     Inr (None,
          (connected 3 (line_of ''+OK''))
            \<lparr>Writer := Some (line_of ''select 5''), Reader := Some (NewReader []),
             DatabaseId := 5\<rparr>, []) \<and>
   SelectDatabase WriteLine_ok (connected 3 []) 5 [] =
     Inr (Some (errors_New ''Invalid select response''),
          (connected 3 [])\<lparr>connection := None, DatabaseId := 0, Reader := None, Writer := None\<rparr>,
          [log_Error ''SelectDatabase: Error while attempting to select database. Err:%q Response:%q isPrefix:%t'',
           Close 7, log_Info ''Disconnected a connection'', graphite_Increment ''disconnect''])"
proof -
  have socket: "connection (connected 3 reply) = Some 7"
    and reader: "Reader (connected 3 reply) = Some (NewReader reply)" for reply
    by (simp_all add: connected_def)
  have wr: "WriteLine_ok (bytes_of ''select '' @ Sprintf_d 5) (Writer (connected 3 reply)) True
      = (None, Some (line_of ''select 5''))" for reply
    by (simp add: connected_def WriteLine_ok_def line_of_def Sprintf_d_def bytes_of_def)
  have ok: "ReadLine (NewReader (line_of ''+OK'')) = (OK_RESPONSE, False, None, NewReader [])"
    by code_simp
  have eof: "ReadLine (NewReader []) = ([], False, Some EOF, NewReader [])"
    by code_simp
  show ?thesis
    using
      SelectDatabase_reply [where WriteLine = WriteLine_ok and world = "[]"
        and this = "connected 3 (line_of ''+OK'')", OF socket reader wr ok]
      SelectDatabase_reply [where WriteLine = WriteLine_ok and world = "[]"
        and this = "connected 3 []", OF socket reader wr eof]
    by simp
qed

text \<open>
  Claim C2 as stated fails: with database 3 recorded and the reply
  \<open>-ERR invalid DB index\<close>, the recorded index after the call is 0, not 3.
\<close>

theorem SelectDatabase_counterexample:
  "DatabaseId (connected 3 (line_of ''-ERR invalid DB index'')) = 3 \<and>
   SelectDatabase WriteLine_ok (connected 3 (line_of ''-ERR invalid DB index'')) 5 [] =
     Inr (Some (errors_New ''Invalid select response''),
          \<lparr>connection = None, DatabaseId = 0, Reader = None, Writer = None,
           protocol = ''tcp'', endpoint = ''localhost:6379'', authUser = [], authPassword = [],
           connectTimeout = 50, readTimeout = 50, writeTimeout = 50\<rparr>,
          [log_Error ''SelectDatabase: Error while attempting to select database. Err:%q Response:%q isPrefix:%t'',
           Close 7, log_Info ''Disconnected a connection'', graphite_Increment ''disconnect''])"
  by code_simp

section \<open>Properties of the copier\<close>

text \<open>
  Claim C3 at a three-element message whose first and last elements are integer
  replies: \<open>CopyMultiBulkMessage\<close> writes the header line, hands the line \<open>:1\<close> to
  \<open>copyBulkMessage\<close> and returns the bulk-format error; the elements stay unread and
  nothing of them reaches the destination.
\<close>

theorem CopyMultiBulkMessage_integer_element:
  "CopyMultiBulkMessage (bytes_of ''*3'') NewWriter
     (NewReader (line_of '':1'' @ line_of ''$3'' @ line_of ''foo'' @ line_of '':2'')) =
   (Some ERROR_BAD_BULK_FORMAT,
    \<lparr>w_buf = line_of ''*3'', w_wr = [], w_err = None, w_fail = None\<rparr>,
    \<lparr>r_buf = line_of ''$3'' @ line_of ''foo'' @ line_of '':2'', r_rd = [], r_end = EOF\<rparr>)"
  by code_simp

text \<open>
  Claim C4 at a one-element message whose element line is empty:
  \<open>IgnoreMultiBulkMessage\<close> reads \<open>firstLine[0]\<close> of the empty line and panics.
\<close>

theorem IgnoreMultiBulkMessage_empty_line:
  "IgnoreMultiBulkMessage (bytes_of ''*1'') (NewReader (line_of [])) = Inl IndexOutOfRange"
  by code_simp

section \<open>Properties of GetCommand\<close>

lemma Peek_Buffered:
  "length (r_buf source) \<le> defaultBufSize \<Longrightarrow>
   Peek source (Buffered source) = (r_buf source, None, source)"
  by (simp add: Peek_def Buffered_def)

lemmas GetCommand_eval =
  GetCommand_def Peek_Buffered defaultBufSize_def line_of_def bytes_of_def
  REDIS_NEWLINE_def CR_def LF_def and_then_def slice_of_def ParseInt_def int64_def
  overwrite_def lowercaseize_def Let_def

text \<open>
  Claim C1, as the code has it.  \<open>GetCommand\<close> reads the first line of the buffer as
  the header of the command's bulk element: on a buffer that starts after the
  \<open>*2\<close> line of the request, at \<open>$3\<close>, it returns the command \<open>get\<close>, the first
  argument \<open>foo\<close> and no error, and the buffer holds the command in lowercase.
\<close>

theorem GetCommand_after_header:
  "GetCommand \<lparr>r_buf = line_of ''$3'' @ line_of ''GET'' @ line_of ''$3'' @ line_of ''foo'',
               r_rd = rd, r_end = e\<rparr> =
   Inr ((Some (bytes_of ''get''), Some (bytes_of ''foo''), None),
        \<lparr>r_buf = line_of ''$3'' @ line_of ''get'' @ line_of ''$3'' @ line_of ''foo'',
         r_rd = rd, r_end = e\<rparr>)"
  by (simp add: GetCommand_eval)

text \<open>
  Claim C1 as stated fails: on the whole request the count 2 of the \<open>*2\<close> line is
  taken for the length of the command, the two bytes \<open>$3\<close> become the command
  \<open>DS\<close>, and the header of the argument is looked for in \<open>GET\<close>, which is no integer.
\<close>

theorem GetCommand_counterexample:
  "GetCommand \<lparr>r_buf = line_of ''*2'' @ line_of ''$3'' @ line_of ''GET'' @ line_of ''$3''
                 @ line_of ''foo'', r_rd = [], r_end = EOF\<rparr> =
   Inr ((Some (bytes_of ''DS''), None, Some ERROR_INVALID_INT),
        \<lparr>r_buf = line_of ''*2'' @ line_of ''DS'' @ line_of ''GET'' @ line_of ''$3''
           @ line_of ''foo'', r_rd = [], r_end = EOF\<rparr>)"
  by code_simp

text \<open>
  Claim C5 at the command \<open>JSON.GET\<close>: the loop adds 32 to every byte up to \<open>Z\<close>, so
  the letters are lowercased and the full stop, a byte below \<open>A\<close>, becomes \<open>N\<close>.
\<close>

theorem GetCommand_lowercases_punctuation:
  "GetCommand \<lparr>r_buf = line_of ''$8'' @ line_of ''JSON.GET'', r_rd = rd, r_end = e\<rparr> =
   Inr ((Some (bytes_of ''jsonNget''), None, None),
        \<lparr>r_buf = line_of ''$8'' @ line_of ''jsonNget'', r_rd = rd, r_end = e\<rparr>)"
  by (simp add: GetCommand_eval)

text \<open>\<open>Peek\<close> of what is buffered hands the reader back as it was.\<close>

lemma Peek_Buffered_reader: "snd (snd (Peek source (Buffered source))) = source"
  by (simp add: Peek_def Buffered_def)

lemma GetCommand_source_kept:
  assumes "GetCommand source = Inr (result, source')"
  shows "r_rd source' = r_rd source \<and> r_end source' = r_end source"
proof -
  obtain contents err where peek: "Peek source (Buffered source) = (contents, err, source)"
    using Peek_Buffered_reader [of source] by (cases "Peek source (Buffered source)") auto
  show ?thesis
    using assms unfolding GetCommand_def peek
    by (auto simp: and_then_def Let_def split: if_splits sum.splits prod.splits)
qed

lemma GetCommand_buffer_only:
  assumes "r_buf source = r_buf other"
  shows "map_sum id fst (GetCommand source) = map_sum id fst (GetCommand other)"
proof -
  have "fst (Peek source (Buffered source)) = fst (Peek other (Buffered other))"
    "fst (snd (Peek source (Buffered source))) = fst (snd (Peek other (Buffered other)))"
    using assms by (simp_all add: Peek_def Buffered_def)
  then obtain contents err where peek:
    "Peek source (Buffered source) = (contents, err, source)"
    "Peek other (Buffered other) = (contents, err, other)"
    using Peek_Buffered_reader [of source] Peek_Buffered_reader [of other]
    by (cases "Peek source (Buffered source)"; cases "Peek other (Buffered other)") auto
  show ?thesis
    unfolding GetCommand_def peek
    by (auto simp: and_then_def Let_def split: if_splits sum.splits prod.splits)
qed

text \<open>
  Claim C8.  Whenever \<open>GetCommand\<close> returns, with a command or with an error, the
  bytes the underlying source still holds are the ones it held before the call, so
  nothing was read from it; and what \<open>GetCommand\<close> returns is the same for two readers
  with the same buffer, whatever their sources hold.
\<close>

theorem GetCommand_reads_nothing:
  "(GetCommand source = Inr (result, source') \<longrightarrow>
      r_rd source' = r_rd source \<and> r_end source' = r_end source) \<and>
   (r_buf source = r_buf other \<longrightarrow>
      map_sum id fst (GetCommand source) = map_sum id fst (GetCommand other))"
  using GetCommand_source_kept [of source result source']
    GetCommand_buffer_only [of source other]
  by blast

theorem GetCommand_reads_nothing_witness:
  "GetCommand \<lparr>r_buf = line_of ''$3'' @ bytes_of ''GE'', r_rd = line_of ''T'', r_end = EOF\<rparr> =
     Inr ((None, None, Some ERROR_MULTIBULK_FORMAT_REQUIRED),
          \<lparr>r_buf = line_of ''$3'' @ bytes_of ''GE'', r_rd = line_of ''T'', r_end = EOF\<rparr>) \<and>
   r_rd (snd (projr (GetCommand
     \<lparr>r_buf = line_of ''$4'' @ line_of ''PING'', r_rd = line_of ''$4'', r_end = Timeout\<rparr>))) =
     line_of ''$4'' \<and>
   map_sum id fst (GetCommand
     \<lparr>r_buf = line_of ''$4'' @ line_of ''PING'', r_rd = line_of ''$4'', r_end = Timeout\<rparr>) =
     Inr (Some (bytes_of ''ping''), None, None)"
proof -
  let ?cut = "\<lparr>r_buf = line_of ''$3'' @ bytes_of ''GE'', r_rd = line_of ''T'', r_end = EOF\<rparr>"
  let ?ping = "\<lparr>r_buf = line_of ''$4'' @ line_of ''PING'', r_rd = line_of ''$4'', r_end = Timeout\<rparr>"
  let ?ping' = "\<lparr>r_buf = line_of ''$4'' @ line_of ''ping'', r_rd = line_of ''$4'', r_end = Timeout\<rparr>"
  let ?alone = "\<lparr>r_buf = line_of ''$4'' @ line_of ''PING'', r_rd = [], r_end = EOF\<rparr>"
  have cut: "GetCommand ?cut = Inr ((None, None, Some ERROR_MULTIBULK_FORMAT_REQUIRED), ?cut)"
    by (simp add: GetCommand_eval)
  have ping: "GetCommand ?ping = Inr ((Some (bytes_of ''ping''), None, None), ?ping')"
    by (simp add: GetCommand_eval)
  have alone: "map_sum id fst (GetCommand ?alone) = Inr (Some (bytes_of ''ping''), None, None)"
    by (simp add: GetCommand_eval)
  show ?thesis
    using cut ping alone
      GetCommand_reads_nothing [of ?ping "(Some (bytes_of ''ping''), None, None)" ?ping' ?alone]
    by simp
qed


lemma IndexByte_nonneg: "IndexByte s c = - 1 \<or> 0 \<le> IndexByte s c"
  by (induction s) (auto simp: Let_def)














end
